theory Spec2Isabelle
  imports Complex_Main
begin

section \<open>Core types (types.ts)\<close>

text \<open>
  JavaScript strings are modelled as \<^typ>\<open>string\<close>: one \<^typ>\<open>char\<close> per code unit, so
  \<open>length\<close> is the source's \<open>.length\<close> for text whose code units fit in eight bits.
  An optional field \<open>f?: T\<close> is a \<open>T option\<close>, \<open>None\<close> standing for \<open>undefined\<close>.
\<close>

datatype MessageRole = System | User | Assistant | Tool

record ToolCall =
  tc_id :: string
  tc_name :: string
  tc_arguments :: string

record Message =
  msg_id :: string
  role :: MessageRole
  content :: string
  name :: "string option"
  tool_calls :: "ToolCall list option"
  tool_call_id :: "string option"
  timestamp :: "nat option"

text \<open>Truthiness of a string and of an optional string (\<open>if (s)\<close>, \<open>!s\<close>).\<close>

definition truthy_str :: "string \<Rightarrow> bool" where
  "truthy_str s = (s \<noteq> [])"

definition truthy_opt :: "string option \<Rightarrow> bool" where
  "truthy_opt so = (case so of None \<Rightarrow> False | Some s \<Rightarrow> truthy_str s)"

text \<open>
  \<open>Array.prototype.slice(start)\<close> with one argument: a negative start counts from the
  end and is clamped at the beginning, a non-negative start is clamped at the length.
  \<open>slice(-0)\<close> is \<open>slice(0)\<close>, the whole array.
\<close>

definition slice_from :: "int \<Rightarrow> 'a list \<Rightarrow> 'a list" where
  "slice_from start xs =
     (let len = int (length xs);
          k = (if start < 0 then max (len + start) 0 else min start len)
      in drop (nat k) xs)"

section \<open>MemoryWindow (core/MemoryWindow.ts)\<close>

text \<open>The constructor's argument: every field optional.\<close>

record MemoryConfigArg =
  arg_maxMessages :: "int option"
  arg_maxTokens :: "int option"
  arg_enableSummarization :: "bool option"
  arg_systemPromptLocked :: "bool option"

text \<open>\<open>Required<MemoryConfig>\<close>, the configuration the window keeps.\<close>

record MemoryConfig =
  maxMessages :: int
  maxTokens :: int
  enableSummarization :: bool
  systemPromptLocked :: bool

record MemoryWindow =
  config :: MemoryConfig
  messages :: "Message list"
  systemPrompt :: "string option"
  pinnedMessages :: "Message list"

definition nullish :: "'a option \<Rightarrow> 'a \<Rightarrow> 'a" where
  "nullish v d = (case v of None \<Rightarrow> d | Some x \<Rightarrow> x)"

definition MemoryWindow_new :: "MemoryConfigArg \<Rightarrow> MemoryWindow" where
  "MemoryWindow_new c =
     \<lparr> config = \<lparr> maxMessages = nullish (arg_maxMessages c) 50,
                    maxTokens = nullish (arg_maxTokens c) 8000,
                    enableSummarization = nullish (arg_enableSummarization c) False,
                    systemPromptLocked = nullish (arg_systemPromptLocked c) True \<rparr>,
       messages = [],
       systemPrompt = None,
       pinnedMessages = [] \<rparr>"

definition setSystemPrompt :: "string \<Rightarrow> MemoryWindow \<Rightarrow> MemoryWindow" where
  "setSystemPrompt prompt w =
     (if \<not> systemPromptLocked (config w) \<or> \<not> truthy_opt (systemPrompt w)
      then w\<lparr>systemPrompt := Some prompt\<rparr>
      else w)"

definition pinMessages :: "Message list \<Rightarrow> MemoryWindow \<Rightarrow> MemoryWindow" where
  "pinMessages ms w = w\<lparr>pinnedMessages := ms\<rparr>"

definition trim :: "MemoryWindow \<Rightarrow> MemoryWindow" where
  "trim w =
     (if int (length (messages w)) > maxMessages (config w)
      then w\<lparr>messages := slice_from (- maxMessages (config w)) (messages w)\<rparr>
      else w)"

definition addMessage :: "Message \<Rightarrow> MemoryWindow \<Rightarrow> MemoryWindow" where
  "addMessage m w = trim (w\<lparr>messages := messages w @ [m]\<rparr>)"

definition addMessages :: "Message list \<Rightarrow> MemoryWindow \<Rightarrow> MemoryWindow" where
  "addMessages ms w = trim (w\<lparr>messages := messages w @ ms\<rparr>)"

definition getAllMessages :: "MemoryWindow \<Rightarrow> Message list" where
  "getAllMessages w = messages w"

definition clear :: "MemoryWindow \<Rightarrow> MemoryWindow" where
  "clear w = w\<lparr>messages := []\<rparr>"

text \<open>\<open>Math.ceil(text.length / 4)\<close>.\<close>

definition estimateTokens :: "string \<Rightarrow> int" where
  "estimateTokens text = (int (length text) + 3) div 4"

text \<open>
  The loop of \<open>trimByTokens\<close>, from the newest message to the oldest: the third argument
  is the part of the list not yet visited, newest first; \<open>result.unshift(msg)\<close> puts the
  message in front of the result. Both branches of the summarization test \<open>break\<close>.
\<close>

fun trim_walk :: "MemoryConfig \<Rightarrow> int \<Rightarrow> Message list \<Rightarrow> Message list \<Rightarrow> Message list" where
  "trim_walk cfg totalTokens [] result = result"
| "trim_walk cfg totalTokens (msg # older) result =
     (let msgTokens = estimateTokens (content msg)
      in if totalTokens + msgTokens \<le> maxTokens cfg
         then trim_walk cfg (totalTokens + msgTokens) older (msg # result)
         else if enableSummarization cfg \<and> length result > 0 then result
         else result)"

definition trimByTokens :: "MemoryWindow \<Rightarrow> Message list \<Rightarrow> Message list" where
  "trimByTokens w msgs =
     (if maxTokens (config w) \<le> 0 then msgs
      else
        let totalTokens = (if truthy_opt (systemPrompt w)
                           then estimateTokens (the (systemPrompt w)) else 0);
            result = trim_walk (config w) totalTokens (rev msgs) []
        in if length result > 0 then result else slice_from (- 1) msgs)"

text \<open>The duplicate filter of \<open>getContext\<close>: the first message of each id is kept.\<close>

fun dedupe :: "string set \<Rightarrow> Message list \<Rightarrow> Message list" where
  "dedupe seen [] = []"
| "dedupe seen (msg # rest) =
     (if msg_id msg \<in> seen then dedupe seen rest
      else msg # dedupe (insert (msg_id msg) seen) rest)"

record Context =
  ctx_systemPrompt :: "string option"
  ctx_messages :: "Message list"

definition getContext :: "MemoryWindow \<Rightarrow> Context" where
  "getContext w =
     (let recentMessages = slice_from (- maxMessages (config w)) (messages w);
          result = pinnedMessages w @ recentMessages;
          filtered = dedupe {} result
      in \<lparr> ctx_systemPrompt = (if truthy_opt (systemPrompt w) then systemPrompt w else None),
           ctx_messages = (if maxTokens (config w) > 0 then trimByTokens w filtered
                           else filtered) \<rparr>)"

text \<open>A run of appends: \<open>addMessage\<close> or \<open>addMessages\<close>, one call after the other.\<close>

datatype append_op = Append Message | AppendMany "Message list"

fun appended :: "append_op \<Rightarrow> Message list" where
  "appended (Append m) = [m]"
| "appended (AppendMany ms) = ms"

fun apply_append :: "append_op \<Rightarrow> MemoryWindow \<Rightarrow> MemoryWindow" where
  "apply_append (Append m) w = addMessage m w"
| "apply_append (AppendMany ms) w = addMessages ms w"

fun apply_appends :: "append_op list \<Rightarrow> MemoryWindow \<Rightarrow> MemoryWindow" where
  "apply_appends [] w = w"
| "apply_appends (a # as) w = apply_appends as (apply_append a w)"

text \<open>The list \<open>getContext\<close> hands to the token trimming: pinned, then recent, duplicates removed.\<close>

definition candidates :: "MemoryWindow \<Rightarrow> Message list" where
  "candidates w =
     dedupe {} (pinnedMessages w @ slice_from (- maxMessages (config w)) (messages w))"

section \<open>PromptEngine (core/PromptEngine.ts)\<close>

text \<open>
  A parsed JSON value. A number is the rational value of the double that the parser
  returns. An object is the list of its properties, each key once.
\<close>

datatype json = JNull | JBool bool | JNum rat | JStr string | JArr "json list"
  | JObj "(string \<times> json) list"

record PluginContext =
  pc_messages :: "Message list"
  pc_systemPrompt :: "string option"
  pc_metadata :: "(string \<times> json option) list"

text \<open>
  A \<open>beforeSend\<close> hook is handed the context object itself. It may change that object
  in place, and then it returns a context (the object it was given or another one),
  returns \<open>null\<close> or \<open>undefined\<close>, or throws. A hook is modelled by a function from the
  state of the context it is given to the state in which it leaves that object, paired
  with what it does at the end; \<open>Returns r\<close> is the return of a context whose state
  is \<open>r\<close>.
\<close>

datatype hook_return = Returns PluginContext | ReturnsNullish | Throws string

type_synonym hook = "PluginContext \<Rightarrow> PluginContext \<times> hook_return"

record ChatPlugin =
  plugin_name :: string
  beforeSend :: "hook option"

record PromptEngineConfig =
  cfg_systemPrompt :: "string option"
  cfg_messages :: "Message list"
  plugins :: "ChatPlugin list option"
  jsonSchema :: "json option"
  tools :: "json option"

text \<open>The decimal digits of a number, as a template literal prints \<open>Date.now()\<close>.\<close>

function decimal :: "nat \<Rightarrow> string" where
  "decimal n = (if n < 10 then [char_of (48 + n)]
                else decimal (n div 10) @ [char_of (48 + n mod 10)])"
  by pat_completeness auto
termination
  by (relation "measure (\<lambda>n. n)") auto

text \<open>
  \<open>return result || context\<close>, and \<open>return context\<close> in the \<open>catch\<close>: in both,
  \<open>context\<close> is the object the hook was given, in the state the hook left it.
\<close>

definition applyPlugin :: "hook \<Rightarrow> PluginContext \<Rightarrow> PluginContext" where
  "applyPlugin transform context =
     (case snd (transform context) of
        Returns result \<Rightarrow> result
      | ReturnsNullish \<Rightarrow> fst (transform context)
      | Throws error \<Rightarrow> fst (transform context))"

text \<open>The \<open>for (const plugin of plugins)\<close> loop of \<open>compose\<close>.\<close>

fun run_plugins :: "ChatPlugin list \<Rightarrow> PluginContext \<Rightarrow> PluginContext" where
  "run_plugins [] processedContext = processedContext"
| "run_plugins (plugin # rest) processedContext =
     run_plugins rest
       (case beforeSend plugin of
          Some transform \<Rightarrow> applyPlugin transform processedContext
        | None \<Rightarrow> processedContext)"

text \<open>
  The list \<open>composed\<close> and the object \<open>pluginContext\<close> that \<open>compose\<close> builds before it
  runs the hooks. \<open>Date.now()\<close> is read twice: \<open>now_id\<close> and \<open>now_ts\<close>.
\<close>

definition composed :: "nat \<Rightarrow> nat \<Rightarrow> PromptEngineConfig \<Rightarrow> Message list" where
  "composed now_id now_ts cfg =
     (if truthy_opt (cfg_systemPrompt cfg)
      then [\<lparr> msg_id = ''system-'' @ decimal now_id, role = System,
               content = the (cfg_systemPrompt cfg), name = None, tool_calls = None,
               tool_call_id = None, timestamp = Some now_ts \<rparr>]
      else []) @ cfg_messages cfg"

definition pluginContext :: "nat \<Rightarrow> nat \<Rightarrow> PromptEngineConfig \<Rightarrow> PluginContext" where
  "pluginContext now_id now_ts cfg =
     \<lparr> pc_messages = composed now_id now_ts cfg,
       pc_systemPrompt = cfg_systemPrompt cfg,
       pc_metadata = [(''jsonSchema'', jsonSchema cfg), (''tools'', tools cfg)] \<rparr>"

definition compose :: "nat \<Rightarrow> nat \<Rightarrow> PromptEngineConfig \<Rightarrow> Message list" where
  "compose now_id now_ts cfg =
     (case plugins cfg of
        None \<Rightarrow> composed now_id now_ts cfg
      | Some ps \<Rightarrow>
          if length ps > 0
          then pc_messages (run_plugins ps (pluginContext now_id now_ts cfg))
          else composed now_id now_ts cfg)"

text \<open>The loop of \<open>formatForClaude\<close>, with its two variables \<open>formatted\<close> and \<open>systemContent\<close>.\<close>

fun formatForClaude_loop :: "Message list \<Rightarrow> Message list \<Rightarrow> string \<Rightarrow> Message list" where
  "formatForClaude_loop [] formatted systemContent = formatted"
| "formatForClaude_loop (msg # rest) formatted systemContent =
     (if role msg = System
      then formatForClaude_loop rest formatted
             (systemContent @ content msg @ ''\<newline>\<newline>'')
      else if truthy_str systemContent \<and> length formatted = 0
      then formatForClaude_loop rest
             (formatted @ [msg\<lparr>content := systemContent @ content msg\<rparr>]) []
      else formatForClaude_loop rest (formatted @ [msg]) systemContent)"

definition formatForClaude :: "Message list \<Rightarrow> Message list" where
  "formatForClaude msgs =
     (let formatted = formatForClaude_loop msgs [] []
      in if length formatted > 0 then formatted else msgs)"

definition formatForProvider :: "Message list \<Rightarrow> string \<Rightarrow> Message list" where
  "formatForProvider msgs provider =
     (if provider = ''claude'' then formatForClaude msgs else msgs)"

text \<open>
  The transform as the specification words it, on (role, content) pairs: the contents of
  all system entries, in order, each followed by a blank line as in the specification's
  example, go in front of the first non-system entry; the system entries are dropped; with
  no non-system entry the system content is one standalone entry.
\<close>

definition spec_system_merge ::
  "(MessageRole \<times> string) list \<Rightarrow> (MessageRole \<times> string) list" where
  "spec_system_merge ms =
     (let sys = concat (map (\<lambda>m. snd m @ ''\<newline>\<newline>'') (filter (\<lambda>m. fst m = System) ms))
      in case filter (\<lambda>m. fst m \<noteq> System) ms of
           [] \<Rightarrow> [(System, sys)]
         | m # others \<Rightarrow> (fst m, sys @ snd m) # others)"

definition role_content :: "Message \<Rightarrow> MessageRole \<times> string" where
  "role_content m = (role m, content m)"

text \<open>The contents of a run of system messages, as \<open>formatForClaude\<close> joins them.\<close>

definition system_text :: "Message list \<Rightarrow> string" where
  "system_text ms = concat (map (\<lambda>m. content m @ ''\<newline>\<newline>'') ms)"

section \<open>ClaudeProvider (providers/ClaudeProvider.ts)\<close>

record ProviderConfig =
  provider :: string
  apiKey :: "string option"
  baseURL :: "string option"
  model :: string
  temperature :: "rat option"
  cfg_maxTokens :: "int option"
  topP :: "rat option"
  frequencyPenalty :: "rat option"
  presencePenalty :: "rat option"

text \<open>The untyped objects \<open>formatMessages\<close> returns: the role is a plain string.\<close>

record WireMessage =
  wire_role :: string
  wire_content :: string

text \<open>
  \<open>String.prototype.trim\<close>: white space and line terminators are removed at both ends.
  Among eight-bit code units these are tab, line feed, vertical tab, form feed, carriage
  return, space and the no-break space.
\<close>

definition js_whitespace :: "char \<Rightarrow> bool" where
  "js_whitespace c = (of_char c \<in> {9, 10, 11, 12, 13, 32, 160 :: nat})"

definition js_trim :: "string \<Rightarrow> string" where
  "js_trim s = rev (dropWhile js_whitespace (rev (dropWhile js_whitespace s)))"

definition Claude_keep :: "Message \<Rightarrow> bool" where
  "Claude_keep msg =
     (if role msg = Assistant \<and> (\<not> truthy_str (content msg) \<or> js_trim (content msg) = [])
      then False
      else if role msg \<noteq> System then content msg \<noteq> []
      else True)"

definition Claude_convert :: "Message \<Rightarrow> WireMessage" where
  "Claude_convert msg =
     (if role msg = System
      then \<lparr> wire_role = ''user'', wire_content = content msg \<rparr>
      else \<lparr> wire_role = (if role msg = Assistant then ''assistant'' else ''user''),
             wire_content = content msg \<rparr>)"

definition Claude_formatMessages :: "Message list \<Rightarrow> WireMessage list" where
  "Claude_formatMessages msgs = map Claude_convert (filter Claude_keep msgs)"

record ClaudeBody =
  body_model :: string
  body_max_tokens :: int
  body_temperature :: rat
  body_top_p :: "rat option"
  body_messages :: "WireMessage list"
  body_system :: "string option"
  body_stream :: "bool option"

text \<open>The request body of \<open>stream\<close> (\<open>streaming = True\<close>) and of \<open>chat\<close>.\<close>

definition Claude_body :: "bool \<Rightarrow> Message list \<Rightarrow> ProviderConfig \<Rightarrow> ClaudeBody" where
  "Claude_body streaming msgs cfg =
     (let formattedMessages = Claude_formatMessages msgs;
          systemMessage = find (\<lambda>m. wire_role m = ''system'') formattedMessages;
          conversationMessages = filter (\<lambda>m. wire_role m \<noteq> ''system'') formattedMessages
      in \<lparr> body_model = model cfg,
           body_max_tokens = nullish (cfg_maxTokens cfg) 4096,
           body_temperature = nullish (temperature cfg) (7 / 10),
           body_top_p = topP cfg,
           body_messages = conversationMessages,
           body_system = map_option wire_content systemMessage,
           body_stream = (if streaming then Some True else None) \<rparr>)"

section \<open>StreamingEngine (core/StreamingEngine.ts)\<close>

datatype FinishReason = Stop | Length | Tool_calls | Error

record Usage =
  promptTokens :: nat
  completionTokens :: nat
  totalTokens :: nat

record StreamChunk =
  chunk_content :: "string option"
  toolCalls :: "ToolCall list option"
  usage :: "Usage option"
  finishReason :: "FinishReason option"
  is_done :: "bool option"

text \<open>
  The engine's fields. \<open>abortController\<close> is \<open>None\<close> when undefined and otherwise holds
  the \<open>aborted\<close> flag of the controller's signal.
\<close>

record StreamingEngine =
  abortController :: "bool option"
  currentMessage :: "Message option"
  accumulatedContent :: string

text \<open>
  The handler's callbacks are optional; a callback that is present is modelled by the
  record of its invocation and does not throw.
\<close>

record StreamHandler =
  has_onChunk :: bool
  has_onComplete :: bool
  has_onError :: bool

datatype handler_call = OnChunk StreamChunk | OnComplete Message | OnError string

text \<open>
  What happens while \<open>for await\<close> waits for the next item: the provider's stream yields
  a chunk, the stream throws, or the caller calls \<open>cancel()\<close>.
\<close>

datatype turn_event = NextChunk StreamChunk | StreamThrows string | CancelCalled

definition cancel :: "StreamingEngine \<Rightarrow> StreamingEngine" where
  "cancel e = (case abortController e of
                 None \<Rightarrow> e
               | Some aborted \<Rightarrow> e\<lparr>abortController := Some True\<rparr>)"

definition isStreaming :: "StreamingEngine \<Rightarrow> bool" where
  "isStreaming e = (abortController e \<noteq> None \<and> abortController e \<noteq> Some True)"

text \<open>The three steps of the loop body that change the engine.\<close>

definition accumulate :: "StreamChunk \<Rightarrow> StreamingEngine \<Rightarrow> StreamingEngine" where
  "accumulate chunk e =
     (if truthy_opt (chunk_content chunk)
      then let acc = accumulatedContent e @ the (chunk_content chunk)
           in e\<lparr>accumulatedContent := acc,
                currentMessage := map_option (\<lambda>m. m\<lparr>content := acc\<rparr>) (currentMessage e)\<rparr>
      else e)"

definition handle_tool_calls :: "StreamChunk \<Rightarrow> StreamingEngine \<Rightarrow> StreamingEngine" where
  "handle_tool_calls chunk e =
     (case toolCalls chunk of
        None \<Rightarrow> e
      | Some tcs \<Rightarrow>
          e\<lparr>currentMessage := map_option (\<lambda>m. m\<lparr>tool_calls := Some tcs\<rparr>) (currentMessage e)\<rparr>)"

definition chunk_terminal :: "StreamChunk \<Rightarrow> bool" where
  "chunk_terminal chunk = (is_done chunk = Some True \<or> finishReason chunk \<noteq> None)"

definition finish_message :: "StreamingEngine \<Rightarrow> StreamingEngine" where
  "finish_message e =
     e\<lparr>currentMessage := map_option (\<lambda>m. m\<lparr>content := accumulatedContent e\<rparr>) (currentMessage e)\<rparr>"

text \<open>
  The \<open>for await\<close> loop. The result is the error thrown by the stream, if any, the engine
  and the callbacks invoked so far.
\<close>

fun stream_loop ::
  "StreamHandler \<Rightarrow> turn_event list \<Rightarrow> StreamingEngine \<Rightarrow> handler_call list
     \<Rightarrow> string option \<times> StreamingEngine \<times> handler_call list" where
  "stream_loop handler [] e calls = (None, e, calls)"
| "stream_loop handler (CancelCalled # rest) e calls = stream_loop handler rest (cancel e) calls"
| "stream_loop handler (StreamThrows err # rest) e calls = (Some err, e, calls)"
| "stream_loop handler (NextChunk chunk # rest) e calls =
     (if abortController e = Some True then (None, e, calls)
      else
        let e1 = handle_tool_calls chunk (accumulate chunk e);
            calls1 = (if has_onChunk handler then calls @ [OnChunk chunk] else calls)
        in if chunk_terminal chunk then (None, finish_message e1, calls1)
           else stream_loop handler rest e1 calls1)"

record StreamResult =
  returned :: "string + Message option"
  handler_calls :: "handler_call list"
  engine_after :: StreamingEngine

text \<open>
  \<open>stream\<close>: \<open>fresh_id\<close> is the identifier built from the clock and the random generator,
  \<open>now\<close> the clock. \<open>Inl\<close> is the error thrown, \<open>Inr\<close> the value returned.
\<close>

definition stream ::
  "string \<Rightarrow> nat \<Rightarrow> turn_event list \<Rightarrow> StreamHandler \<Rightarrow> string option \<Rightarrow> StreamingEngine
     \<Rightarrow> StreamResult" where
  "stream fresh_id now events handler messageId e0 =
     (let msgId = (if truthy_opt messageId then the messageId else fresh_id);
          e1 = e0\<lparr>abortController := Some False,
                  accumulatedContent := [],
                  currentMessage := Some \<lparr> msg_id = msgId, role = Assistant, content = [],
                      name = None, tool_calls = None, tool_call_id = None,
                      timestamp = Some now \<rparr>\<rparr>
      in case stream_loop handler events e1 [] of
           (Some err, e2, calls) \<Rightarrow>
             \<lparr> returned = Inl err,
               handler_calls = calls @ (if has_onError handler then [OnError err] else []),
               engine_after = e2\<lparr>abortController := None\<rparr> \<rparr>
         | (None, e2, calls) \<Rightarrow>
             \<lparr> returned = Inr (currentMessage e2),
               handler_calls = calls @
                 (case currentMessage e2 of
                    None \<Rightarrow> []
                  | Some m \<Rightarrow> if has_onComplete handler then [OnComplete m] else []),
               engine_after = e2\<lparr>abortController := None\<rparr> \<rparr>)"

text \<open>The text a chunk carries: nothing when \<open>content\<close> is absent.\<close>

definition chunk_text :: "StreamChunk \<Rightarrow> string" where
  "chunk_text chunk = (case chunk_content chunk of None \<Rightarrow> [] | Some c \<Rightarrow> c)"

text \<open>The engine as \<open>stream\<close> sets it up before the loop.\<close>

definition start_engine :: "string \<Rightarrow> nat \<Rightarrow> string option \<Rightarrow> StreamingEngine \<Rightarrow> StreamingEngine" where
  "start_engine fresh_id now messageId e0 =
     e0\<lparr>abortController := Some False,
        accumulatedContent := [],
        currentMessage := Some \<lparr> msg_id = (if truthy_opt messageId then the messageId else fresh_id),
            role = Assistant, content = [], name = None, tool_calls = None,
            tool_call_id = None, timestamp = Some now \<rparr>\<rparr>"

text \<open>The message after the first chunk has been applied to the new message.\<close>

definition first_chunk_message :: "string \<Rightarrow> nat \<Rightarrow> string option \<Rightarrow> StreamChunk \<Rightarrow> Message" where
  "first_chunk_message fresh_id now messageId c =
     \<lparr> msg_id = (if truthy_opt messageId then the messageId else fresh_id),
       role = Assistant, content = chunk_text c, name = None,
       tool_calls = toolCalls c, tool_call_id = None, timestamp = Some now \<rparr>"

section \<open>OpenAIProvider (providers/OpenAIProvider.ts)\<close>

text \<open>
  Values read from the parsed event: \<open>None\<close> is \<open>undefined\<close>. \<open>get_prop v k\<close> is \<open>v.k\<close> for
  the keys the adapter reads (none of them is a property of an array, a string, a number
  or a boolean), \<open>index0 v\<close> is \<open>v[0]\<close>, and \<open>opt_chain\<close> is the \<open>?.\<close> operator.
\<close>

fun get_prop :: "json \<Rightarrow> string \<Rightarrow> json option" where
  "get_prop (JObj kvs) key = map_of kvs key"
| "get_prop v key = None"

fun index0 :: "json \<Rightarrow> json option" where
  "index0 (JArr xs) = (case xs of [] \<Rightarrow> None | x # rest \<Rightarrow> Some x)"
| "index0 (JStr s) = (case s of [] \<Rightarrow> None | c # rest \<Rightarrow> Some (JStr [c]))"
| "index0 (JObj kvs) = map_of kvs ''0''"
| "index0 v = None"

definition opt_chain :: "json option \<Rightarrow> (json \<Rightarrow> json option) \<Rightarrow> json option" where
  "opt_chain v f = (case v of None \<Rightarrow> None | Some JNull \<Rightarrow> None | Some x \<Rightarrow> f x)"

definition truthy_js :: "json option \<Rightarrow> bool" where
  "truthy_js v =
     (case v of
        None \<Rightarrow> False
      | Some JNull \<Rightarrow> False
      | Some (JBool b) \<Rightarrow> b
      | Some (JNum n) \<Rightarrow> n \<noteq> 0
      | Some (JStr s) \<Rightarrow> s \<noteq> []
      | Some (JArr xs) \<Rightarrow> True
      | Some (JObj kvs) \<Rightarrow> True)"

text \<open>The chunks the adapter yields, with the values as they come out of the parser.\<close>

record YieldedChunk =
  y_content :: "json option"
  y_toolCalls :: "json option"
  y_usage :: "json option"
  y_finishReason :: "json option"
  y_done :: "bool option"

definition content_chunk :: "json option \<Rightarrow> YieldedChunk" where
  "content_chunk c = \<lparr> y_content = c, y_toolCalls = None, y_usage = None,
                       y_finishReason = None, y_done = None \<rparr>"

definition toolCalls_chunk :: "json option \<Rightarrow> YieldedChunk" where
  "toolCalls_chunk t = \<lparr> y_content = None, y_toolCalls = t, y_usage = None,
                         y_finishReason = None, y_done = None \<rparr>"

definition finish_chunk :: "json option \<Rightarrow> json option \<Rightarrow> YieldedChunk" where
  "finish_chunk r u = \<lparr> y_content = None, y_toolCalls = None, y_usage = u,
                        y_finishReason = r, y_done = Some True \<rparr>"

definition done_chunk :: YieldedChunk where
  "done_chunk = \<lparr> y_content = None, y_toolCalls = None, y_usage = None,
                  y_finishReason = None, y_done = Some True \<rparr>"

text \<open>
  The body of the \<open>try\<close> after \<open>JSON.parse\<close> has returned. \<open>parsed.choices\<close> throws a
  TypeError when the event is \<open>null\<close>; the \<open>catch\<close> swallows it before anything is
  yielded for the line.
\<close>

definition event_chunks :: "json \<Rightarrow> YieldedChunk list" where
  "event_chunks parsed =
     (if parsed = JNull then []
      else
        let choice = opt_chain (get_prop parsed ''choices'') index0;
            delta = opt_chain choice (\<lambda>c. get_prop c ''delta'');
            delta_content = opt_chain delta (\<lambda>d. get_prop d ''content'');
            delta_tool_calls = opt_chain delta (\<lambda>d. get_prop d ''tool_calls'');
            finish_reason = opt_chain choice (\<lambda>c. get_prop c ''finish_reason'')
        in (if truthy_js delta_content then [content_chunk delta_content] else [])
         @ (if truthy_js delta_tool_calls then [toolCalls_chunk delta_tool_calls] else [])
         @ (if truthy_js finish_reason
            then [finish_chunk finish_reason (get_prop parsed ''usage'')] else []))"

text \<open>
  \<open>for (const line of lines)\<close>. \<open>parse\<close> is \<open>JSON.parse\<close>, \<open>None\<close> when it throws. The
  flag says that the generator has returned at the end-of-stream marker.
\<close>

fun process_lines ::
  "(string \<Rightarrow> json option) \<Rightarrow> string list \<Rightarrow> YieldedChunk list \<times> bool" where
  "process_lines parse [] = ([], False)"
| "process_lines parse (line # rest) =
     (if take 6 line = ''data: ''
      then let data = drop 6 line
           in if data = ''[DONE]'' then ([done_chunk], True)
              else let here = (case parse data of
                                 None \<Rightarrow> []
                               | Some parsed \<Rightarrow> event_chunks parsed);
                       later = process_lines parse rest
                   in (here @ fst later, snd later)
      else process_lines parse rest)"

text \<open>\<open>buffer.split('\n')\<close>: always at least one piece.\<close>

fun split_nl :: "string \<Rightarrow> string list" where
  "split_nl [] = [[]]"
| "split_nl (c # cs) =
     (if c = CHR 0x0A then [] # split_nl cs
      else case split_nl cs of
             [] \<Rightarrow> [[c]]
           | l # ls \<Rightarrow> (c # l) # ls)"

text \<open>
  The \<open>while (true)\<close> loop over the reads of the body, each read already decoded to text;
  the list ends where the reader reports \<open>done\<close>. The result is the sequence of chunks
  the generator yields to a consumer that keeps pulling.
\<close>

fun read_loop :: "(string \<Rightarrow> json option) \<Rightarrow> string \<Rightarrow> string list \<Rightarrow> YieldedChunk list" where
  "read_loop parse buffer [] = []"
| "read_loop parse buffer (v # reads) =
     (let lines = split_nl (buffer @ v);
          buffer' = last lines;
          out = process_lines parse (butlast lines)
      in if snd out then fst out else fst out @ read_loop parse buffer' reads)"

datatype http_response = NotOk string | NoBody | Body "string list"

datatype provider_error = ApiError string | NoResponseBody

definition OpenAI_stream ::
  "(string \<Rightarrow> json option) \<Rightarrow> http_response \<Rightarrow> provider_error + YieldedChunk list" where
  "OpenAI_stream parse response =
     (case response of
        NotOk err \<Rightarrow> Inl (ApiError (''OpenAI API error: '' @ err))
      | NoBody \<Rightarrow> Inl NoResponseBody
      | Body reads \<Rightarrow> Inr (read_loop parse [] reads))"

text \<open>\<open>choice?.delta?.content\<close> of a parsed event, and a complete \<open>data:\<close> line.\<close>

definition delta_content :: "json \<Rightarrow> json option" where
  "delta_content parsed =
     opt_chain (opt_chain (opt_chain (get_prop parsed ''choices'') index0)
                  (\<lambda>c. get_prop c ''delta''))
       (\<lambda>d. get_prop d ''content'')"

definition data_line :: "string \<Rightarrow> string" where
  "data_line d = ''data: '' @ d"

text \<open>The lines of a text, each ended by a line feed.\<close>

definition unlines :: "string list \<Rightarrow> string" where
  "unlines ls = concat (map (\<lambda>l. l @ [CHR 0x0A]) ls)"

section \<open>Concrete inputs\<close>

definition mk_message :: "string \<Rightarrow> MessageRole \<Rightarrow> string \<Rightarrow> Message" where
  "mk_message i r c = \<lparr> msg_id = i, role = r, content = c, name = None,
       tool_calls = None, tool_call_id = None, timestamp = None \<rparr>"

definition window_of :: "int \<Rightarrow> int \<Rightarrow> MemoryWindow" where
  "window_of n t = MemoryWindow_new \<lparr> arg_maxMessages = Some n, arg_maxTokens = Some t,
       arg_enableSummarization = None, arg_systemPromptLocked = None \<rparr>"

definition m1 :: Message where "m1 = mk_message ''1'' User ''a''"
definition m2 :: Message where "m2 = mk_message ''2'' Assistant ''b''"
definition m3 :: Message where "m3 = mk_message ''3'' User ''c''"

definition sys_hi :: "Message list" where
  "sys_hi = [mk_message ''s'' System ''X'', mk_message ''u'' User ''hi'']"

definition hi_sys :: "Message list" where
  "hi_sys = [mk_message ''u'' User ''hi'', mk_message ''s'' System ''X'']"

definition mixed_roles :: "Message list" where
  "mixed_roles = [mk_message ''a'' System ''A'', mk_message ''b'' System ''B'',
     mk_message ''u'' User ''hi'', mk_message ''c'' System ''C'',
     mk_message ''y'' Assistant ''yo'']"

definition null_plugin :: ChatPlugin where
  "null_plugin = \<lparr> plugin_name = ''null'', beforeSend = Some (\<lambda>ctx. (ctx, ReturnsNullish)) \<rparr>"

definition tag_plugin :: ChatPlugin where
  "tag_plugin = \<lparr> plugin_name = ''tag'',
      beforeSend = Some (\<lambda>ctx. (ctx, Returns (ctx\<lparr>pc_messages := pc_messages ctx @ [m3]\<rparr>))) \<rparr>"

definition example_config :: PromptEngineConfig where
  "example_config = \<lparr> cfg_systemPrompt = None, cfg_messages = [m1],
      plugins = Some [null_plugin, tag_plugin], jsonSchema = None, tools = None \<rparr>"

text \<open>The hook \<open>ctx => { ctx.messages.push(m2); return undefined }\<close>.\<close>

definition push_hook :: hook where
  "push_hook ctx = (ctx\<lparr>pc_messages := pc_messages ctx @ [m2]\<rparr>, ReturnsNullish)"

definition push_plugin :: ChatPlugin where
  "push_plugin = \<lparr> plugin_name = ''push'', beforeSend = Some push_hook \<rparr>"

definition push_config :: PromptEngineConfig where
  "push_config = \<lparr> cfg_systemPrompt = None, cfg_messages = [m1],
      plugins = Some [push_plugin], jsonSchema = None, tools = None \<rparr>"

definition fresh_engine :: StreamingEngine where
  "fresh_engine = \<lparr> abortController = None, currentMessage = None, accumulatedContent = [] \<rparr>"

definition text_chunk :: "string \<Rightarrow> StreamChunk" where
  "text_chunk t = \<lparr> chunk_content = Some t, toolCalls = None, usage = None,
      finishReason = None, is_done = None \<rparr>"

definition all_callbacks :: StreamHandler where
  "all_callbacks = \<lparr> has_onChunk = True, has_onComplete = True, has_onError = True \<rparr>"

definition content_event :: "string \<Rightarrow> json" where
  "content_event t =
     JObj [(''choices'', JArr [JObj [(''delta'', JObj [(''content'', JStr t)])]])]"

text \<open>
  The text \<open>{"choices":[{"delta":{"content":"t"}}]}\<close> of a content event and a text cut
  off in the middle of an object, \<open>{"choices":[{\<close>, which \<open>JSON.parse\<close> rejects.
\<close>

definition quoted :: "string \<Rightarrow> string" where
  "quoted s = CHR 0x22 # s @ [CHR 0x22]"

definition content_json :: "string \<Rightarrow> string" where
  "content_json t =
     ''{'' @ quoted ''choices'' @ '':[{'' @ quoted ''delta'' @ '':{'' @ quoted ''content''
       @ '':'' @ quoted t @ ''}}]}''"

definition truncated_json :: string where
  "truncated_json = ''{'' @ quoted ''choices'' @ '':[{''"

text \<open>
  \<open>JSON.parse\<close> on the payloads of the example streams: the two event texts parse to
  their values, and the truncated text, the only other payload the examples hand to the
  parser, makes it throw.
\<close>

definition example_parse :: "string \<Rightarrow> json option" where
  "example_parse s =
     (if s = content_json ''Hel'' then Some (content_event ''Hel'')
      else if s = content_json ''lo'' then Some (content_event ''lo'')
      else None)"

text \<open>
  An event stream framed by blank lines, with the malformed line between the two events
  and the end-of-stream marker last, read in three pieces cut inside the first and the
  third line.
\<close>

definition example_lines :: "string list" where
  "example_lines =
     [data_line (content_json ''Hel''), [], data_line truncated_json, [],
      data_line (content_json ''lo''), [], ''data: [DONE]'', []]"

definition example_reads :: "string list" where
  "example_reads =
     [take 20 (unlines example_lines),
      take 40 (drop 20 (unlines example_lines)),
      drop 40 (drop 20 (unlines example_lines))]"

text \<open>The same three lines after an end-of-stream marker, in one read.\<close>

definition done_first_reads :: "string list" where
  "done_first_reads =
     [unlines [''data: [DONE]'', data_line (content_json ''Hel''), data_line truncated_json,
               data_line (content_json ''lo'')]]"

definition pinned_window :: MemoryWindow where
  "pinned_window = pinMessages [mk_message ''p'' User ''aaaaaaaa'']
     (addMessage (mk_message ''m'' User ''hi'') (window_of 50 1))"

definition tight_window :: MemoryWindow where
  "tight_window = addMessage (mk_message ''n'' User ''a message of many characters'')
     (addMessage (mk_message ''m'' User ''hi'') (window_of 50 1))"

definition negative_window :: MemoryWindow where
  "negative_window = addMessages [m1, m2, m3] (window_of (- 2) 8000)"

section \<open>The transcript and the sendable subset\<close>

lemma slice_from_0: "slice_from 0 xs = xs"
  by (simp add: slice_from_def)

lemma slice_from_neg:
  "0 \<le> n \<Longrightarrow> slice_from (- n) xs = (if n = 0 then xs else drop (length xs - nat n) xs)"
  by (auto simp: slice_from_def Let_def max_def nat_diff_distrib')

lemma trim_messages:
  "0 \<le> maxMessages (config w) \<Longrightarrow>
   messages (trim w) = slice_from (- maxMessages (config w)) (messages w)"
  by (auto simp: trim_def slice_from_neg slice_from_0)

lemma trim_config: "config (trim w) = config w"
  by (simp add: trim_def)

lemma slice_slice_append:
  "0 \<le> n \<Longrightarrow> slice_from (- n) (slice_from (- n) xs @ ys) = slice_from (- n) (xs @ ys)"
proof (cases "n = 0")
  case True
  then show ?thesis by (simp add: slice_from_0)
next
  case False
  assume nonneg: "0 \<le> n"
  show ?thesis
  proof (cases "nat n \<le> length xs")
    case True
    then have "length xs + length ys - (length xs - nat n + nat n) + (length xs - nat n)
        = length xs + length ys - nat n" by arith
    with False nonneg True show ?thesis
      by (simp add: slice_from_neg)
  next
    case short: False
    with False nonneg show ?thesis
      by (simp add: slice_from_neg)
  qed
qed

lemma slice_from_idem:
  "0 \<le> n \<Longrightarrow> slice_from (- n) (slice_from (- n) xs) = slice_from (- n) xs"
  using slice_slice_append [of n xs "[]"] by simp

lemma apply_append_messages:
  "0 \<le> maxMessages (config w) \<Longrightarrow>
   messages (apply_append a w) =
     slice_from (- maxMessages (config w)) (messages w @ appended a)"
  by (cases a) (simp_all add: addMessage_def addMessages_def trim_messages)

lemma apply_append_config: "config (apply_append a w) = config w"
  by (cases a) (simp_all add: addMessage_def addMessages_def trim_config)

lemma apply_appends_messages:
  "0 \<le> maxMessages (config w) \<Longrightarrow>
   slice_from (- maxMessages (config w)) (messages w) = messages w \<Longrightarrow>
   messages (apply_appends as w) =
     slice_from (- maxMessages (config w)) (messages w @ concat (map appended as))"
proof (induction as arbitrary: w)
  case Nil
  then show ?case by simp
next
  case (Cons a as)
  let ?n = "maxMessages (config w)"
  let ?w = "apply_append a w"
  have c: "config ?w = config w" by (rule apply_append_config)
  have m: "messages ?w = slice_from (- ?n) (messages w @ appended a)"
    using Cons.prems(1) by (rule apply_append_messages)
  have inv: "slice_from (- maxMessages (config ?w)) (messages ?w) = messages ?w"
    using Cons.prems(1) by (simp add: c m slice_from_idem)
  have "messages (apply_appends as ?w) =
        slice_from (- ?n) (messages ?w @ concat (map appended as))"
    using Cons.IH [of ?w] Cons.prems(1) inv by (simp add: c)
  then show ?case
    using Cons.prems(1) by (simp add: m slice_slice_append)
qed

text \<open>
  C3, as the code has it: \<open>addMessage\<close> and \<open>addMessages\<close> re-apply the message-count
  ceiling, so on a window that starts empty, with a ceiling that is not negative,
  \<open>getAllMessages\<close> returns the most recent \<open>maxMessages\<close> of the appended messages (all of
  them when the ceiling is 0 or is not exceeded), in insertion order and without
  deduplication. Its length is the smaller of the number of appended messages and a
  positive ceiling.
\<close>

theorem all_is_recent_window:
  assumes "0 \<le> maxMessages (config w)" and "messages w = []"
  shows "getAllMessages (apply_appends as w) =
           slice_from (- maxMessages (config w)) (concat (map appended as))
       \<and> (int (length (concat (map appended as))) \<le> maxMessages (config w) \<longrightarrow>
            getAllMessages (apply_appends as w) = concat (map appended as))
       \<and> (0 < maxMessages (config w) \<longrightarrow>
            length (getAllMessages (apply_appends as w)) =
              min (length (concat (map appended as))) (nat (maxMessages (config w))))"
proof -
  let ?n = "maxMessages (config w)"
  let ?all = "concat (map appended as)"
  have inv: "slice_from (- ?n) (messages w) = messages w"
    using assms by (simp add: slice_from_neg)
  have eq: "getAllMessages (apply_appends as w) = slice_from (- ?n) ?all"
    using apply_appends_messages [OF assms(1) inv, of as] assms(2)
    by (simp add: getAllMessages_def)
  have a: "int (length ?all) \<le> ?n \<longrightarrow> slice_from (- ?n) ?all = ?all"
    using assms(1) by (auto simp: slice_from_neg)
  have b: "0 < ?n \<longrightarrow> length (slice_from (- ?n) ?all) = min (length ?all) (nat ?n)"
    using assms(1) by (auto simp: slice_from_neg)
  from eq a b show ?thesis by simp
qed

theorem all_is_recent_window_witness:
  "getAllMessages (apply_appends [Append m1, AppendMany [m2, m3]] (window_of 2 8000)) = [m2, m3]
   \<and> getAllMessages (apply_appends [Append m1, Append m2] (window_of 2 8000)) = [m1, m2]"
  using all_is_recent_window [of "window_of 2 8000" "[Append m1, AppendMany [m2, m3]]"]
        all_is_recent_window [of "window_of 2 8000" "[Append m1, Append m2]"]
  by (simp add: window_of_def MemoryWindow_new_def nullish_def slice_from_def)

text \<open>
  C3 as stated fails: with \<open>maxMessages = 2\<close>, three appends leave a transcript of two
  messages, the first one gone.
\<close>

theorem all_length_counterexample:
  "length (getAllMessages
      (apply_appends [Append m1, Append m2, Append m3] (window_of 2 8000))) \<noteq> 3
   \<and> getAllMessages (apply_appends [Append m1, Append m2, Append m3] (window_of 2 8000))
       \<noteq> [m1, m2, m3]"
  by (simp add: window_of_def MemoryWindow_new_def nullish_def slice_from_def addMessage_def
        trim_def getAllMessages_def)

lemma getContext_messages:
  "ctx_messages (getContext w) =
     (if maxTokens (config w) > 0 then trimByTokens w (candidates w) else candidates w)"
  by (simp add: getContext_def candidates_def Let_def)

lemma dedupe_nonempty: "xs \<noteq> [] \<Longrightarrow> dedupe {} xs \<noteq> []"
  by (cases xs) simp_all

lemma slice_from_nonempty: "xs \<noteq> [] \<Longrightarrow> 0 \<le> n \<Longrightarrow> slice_from (- n) xs \<noteq> []"
  by (cases xs) (auto simp: slice_from_neg)

lemma slice_from_last: "xs \<noteq> [] \<Longrightarrow> slice_from (- 1) xs = [last xs]"
proof -
  assume ne: "xs \<noteq> []"
  then have "xs = butlast xs @ [last xs]" by simp
  then have "drop (length (butlast xs)) xs = [last xs]"
    by (metis append_eq_conv_conj)
  then have "drop (length xs - 1) xs = [last xs]" by simp
  with ne show ?thesis using slice_from_neg [of 1 xs] by simp
qed

lemma trimByTokens_nonempty: "xs \<noteq> [] \<Longrightarrow> trimByTokens w xs \<noteq> []"
  by (auto simp: trimByTokens_def Let_def slice_from_last)

text \<open>
  C4 at a concrete window: \<open>maxTokens = 1\<close>, the transcript holds the message \<open>hi\<close> (one
  token) and the message of eight characters (two tokens) is pinned. The token trimming
  walks from the newest candidate, keeps \<open>hi\<close>, and stops at the pinned message: the
  pinned message is not in the result of \<open>getContext\<close>.
\<close>

theorem pinned_dropped_by_token_budget:
  "pinnedMessages pinned_window = [mk_message ''p'' User ''aaaaaaaa'']
   \<and> ctx_messages (getContext pinned_window) = [mk_message ''m'' User ''hi'']
   \<and> mk_message ''p'' User ''aaaaaaaa'' \<notin> set (ctx_messages (getContext pinned_window))"
  by (simp add: pinned_window_def pinMessages_def addMessage_def trim_def window_of_def
        MemoryWindow_new_def nullish_def getContext_def slice_from_def mk_message_def
        trimByTokens_def truthy_opt_def estimateTokens_def)

text \<open>
  C5, as the code has it: for a window whose transcript is not empty and whose
  \<open>maxMessages\<close> is not negative, \<open>getContext\<close> returns a non-empty message list for every
  value of \<open>maxTokens\<close>; and when the token walk keeps nothing, the result is the single
  most recent candidate.
\<close>

theorem sendable_nonempty:
  assumes "messages w \<noteq> []" and "0 \<le> maxMessages (config w)"
  shows "ctx_messages (getContext w) \<noteq> []
       \<and> (0 < maxTokens (config w) \<longrightarrow>
           trim_walk (config w)
             (if truthy_opt (systemPrompt w) then estimateTokens (the (systemPrompt w)) else 0)
             (rev (candidates w)) [] = [] \<longrightarrow>
           ctx_messages (getContext w) = [last (candidates w)])"
proof -
  have "slice_from (- maxMessages (config w)) (messages w) \<noteq> []"
    using assms by (rule slice_from_nonempty)
  then have c: "candidates w \<noteq> []"
    by (simp add: candidates_def dedupe_nonempty)
  then have 1: "ctx_messages (getContext w) \<noteq> []"
    by (simp add: getContext_messages trimByTokens_nonempty)
  from c have 2: "0 < maxTokens (config w) \<longrightarrow>
           trim_walk (config w)
             (if truthy_opt (systemPrompt w) then estimateTokens (the (systemPrompt w)) else 0)
             (rev (candidates w)) [] = [] \<longrightarrow>
           ctx_messages (getContext w) = [last (candidates w)]"
    by (simp add: getContext_messages trimByTokens_def Let_def slice_from_last)
  from 1 2 show ?thesis by simp
qed

theorem sendable_nonempty_witness:
  "ctx_messages (getContext tight_window) =
     [mk_message ''n'' User ''a message of many characters'']"
  using sendable_nonempty [where w = tight_window]
  by (simp add: tight_window_def addMessage_def trim_def window_of_def
        MemoryWindow_new_def nullish_def candidates_def slice_from_def mk_message_def
        truthy_opt_def estimateTokens_def)

text \<open>
  C5 as stated fails where \<open>maxMessages\<close> is negative: with \<open>maxMessages = -2\<close>,
  \<open>addMessages\<close> of three messages leaves the transcript \<open>[m3]\<close>, and \<open>getContext\<close> takes
  \<open>slice(2)\<close> of it, which is empty.
\<close>

theorem sendable_empty_counterexample:
  "messages negative_window = [m3] \<and> ctx_messages (getContext negative_window) = []"
  by (simp add: negative_window_def addMessages_def trim_def window_of_def
        MemoryWindow_new_def nullish_def getContext_def slice_from_def trimByTokens_def
        truthy_opt_def)

section \<open>The system prompt lock\<close>

text \<open>
  C7, as the code has it: on a window with no prompt yet, two calls of \<open>setSystemPrompt\<close>
  keep the first value when the lock is enabled and the first value is not the empty
  string; otherwise the second call wins.
\<close>

theorem setSystemPrompt_twice:
  assumes "systemPrompt w = None"
  shows "systemPrompt (setSystemPrompt second (setSystemPrompt first w)) =
           (if systemPromptLocked (config w) \<and> first \<noteq> [] then Some first else Some second)"
  using assms by (simp add: setSystemPrompt_def truthy_opt_def truthy_str_def)

theorem setSystemPrompt_twice_witness:
  "systemPrompt (setSystemPrompt ''B'' (setSystemPrompt ''A'' (window_of 50 8000))) = Some ''A''"
  using setSystemPrompt_twice
    [where w = "window_of 50 8000" and first = "''A''" and second = "''B''"]
  by (simp add: window_of_def MemoryWindow_new_def nullish_def)

text \<open>
  C7 as stated fails for an empty first prompt: with the lock enabled, the second call
  overwrites it.
\<close>

theorem setSystemPrompt_twice_counterexample:
  "systemPromptLocked (config (window_of 50 8000))
   \<and> systemPrompt (setSystemPrompt ''B'' (setSystemPrompt [] (window_of 50 8000))) \<noteq> Some []"
  by (simp add: window_of_def MemoryWindow_new_def nullish_def setSystemPrompt_def
        truthy_opt_def truthy_str_def)

text \<open>
  C10: when the first call of \<open>setSystemPrompt\<close> passes the empty string, the empty
  string is stored, a later call overwrites it whatever the lock flag, and \<open>getContext\<close>
  leaves \<open>systemPrompt\<close> out while the stored prompt is the empty string.
\<close>

theorem empty_prompt_does_not_lock:
  assumes "systemPrompt w = None"
  shows "systemPrompt (setSystemPrompt [] w) = Some []
       \<and> systemPrompt (setSystemPrompt p (setSystemPrompt [] w)) = Some p
       \<and> ctx_systemPrompt (getContext (setSystemPrompt [] w)) = None"
  using assms
  by (simp add: setSystemPrompt_def truthy_opt_def truthy_str_def getContext_def Let_def)

theorem empty_prompt_does_not_lock_witness:
  "systemPrompt (setSystemPrompt ''B'' (setSystemPrompt [] (window_of 50 8000))) = Some ''B''
   \<and> ctx_systemPrompt (getContext (setSystemPrompt [] (window_of 50 8000))) = None"
  using empty_prompt_does_not_lock [where w = "window_of 50 8000" and p = "''B''"]
  by (simp add: window_of_def MemoryWindow_new_def nullish_def)

section \<open>Composition and vendor shaping\<close>

lemma run_plugins_append:
  "run_plugins (ps @ qs) ctx = run_plugins qs (run_plugins ps ctx)"
  by (induction ps arbitrary: ctx) simp_all

lemma pluginContext_plugins:
  "pluginContext a b (cfg\<lparr>plugins := x\<rparr>) = pluginContext a b cfg"
  by (simp add: pluginContext_def composed_def)

lemma pluginContext_messages: "pc_messages (pluginContext a b cfg) = composed a b cfg"
  by (simp add: pluginContext_def)

lemma compose_chain:
  assumes "plugins cfg = Some (before @ p # after)" and "beforeSend p = Some hook"
  shows "compose now_id now_ts cfg =
     pc_messages (run_plugins after
       (applyPlugin hook (run_plugins before (pluginContext now_id now_ts cfg))))"
  using assms by (simp add: compose_def run_plugins_append)

lemma compose_without:
  "compose now_id now_ts (cfg\<lparr>plugins := Some (before @ after)\<rparr>) =
     pc_messages (run_plugins after (run_plugins before (pluginContext now_id now_ts cfg)))"
  by (cases "before @ after = []")
     (auto simp: compose_def pluginContext_plugins run_plugins_append pluginContext_messages
        composed_def)

text \<open>
  C9, as the code has it: when the \<open>beforeSend\<close> hook of a plugin in the chain returns
  \<open>null\<close> or \<open>undefined\<close>, \<open>applyPlugin\<close> hands back the context object the hook was
  given, in the state the hook left it; the later hooks run on it and \<open>compose\<close> returns
  the messages they leave. When the hook has not changed the object, the context is the
  one from before the hook and \<open>compose\<close> returns what it returns for the chain without
  that plugin.
\<close>

theorem nullish_hook_keeps_context_object:
  assumes "plugins cfg = Some (before @ p # after)"
    and "beforeSend p = Some hook"
    and "snd (hook (run_plugins before (pluginContext now_id now_ts cfg))) = ReturnsNullish"
  shows "applyPlugin hook (run_plugins before (pluginContext now_id now_ts cfg))
           = fst (hook (run_plugins before (pluginContext now_id now_ts cfg)))
       \<and> compose now_id now_ts cfg =
           pc_messages (run_plugins after
             (fst (hook (run_plugins before (pluginContext now_id now_ts cfg)))))
       \<and> (fst (hook (run_plugins before (pluginContext now_id now_ts cfg)))
             = run_plugins before (pluginContext now_id now_ts cfg) \<longrightarrow>
           compose now_id now_ts cfg =
             compose now_id now_ts (cfg\<lparr>plugins := Some (before @ after)\<rparr>))"
proof -
  let ?c1 = "run_plugins before (pluginContext now_id now_ts cfg)"
  have a: "applyPlugin hook ?c1 = fst (hook ?c1)"
    using assms(3) by (simp add: applyPlugin_def)
  have b: "compose now_id now_ts cfg = pc_messages (run_plugins after (fst (hook ?c1)))"
    using compose_chain [OF assms(1) assms(2), of now_id now_ts] a by simp
  have c: "fst (hook ?c1) = ?c1 \<longrightarrow>
      compose now_id now_ts cfg =
        compose now_id now_ts (cfg\<lparr>plugins := Some (before @ after)\<rparr>)"
    using b by (simp add: compose_without)
  from a b c show ?thesis by (intro conjI)
qed

theorem nullish_hook_keeps_context_object_witness:
  "compose 0 0 example_config = [m1, m3]
   \<and> compose 0 0 push_config = [m1, m2]"
  using nullish_hook_keeps_context_object [where cfg = example_config and before = "[]"
      and p = null_plugin and after = "[tag_plugin]" and hook = "\<lambda>ctx. (ctx, ReturnsNullish)"
      and now_id = 0 and now_ts = 0]
    nullish_hook_keeps_context_object [where cfg = push_config and before = "[]"
      and p = push_plugin and after = "[]" and hook = push_hook
      and now_id = 0 and now_ts = 0]
  by (simp add: example_config_def null_plugin_def tag_plugin_def push_config_def
        push_plugin_def push_hook_def pluginContext_def composed_def applyPlugin_def
        truthy_opt_def)

text \<open>
  C9 as stated fails for a hook that changes the context in place before it returns
  \<open>undefined\<close>: the hook that pushes \<open>m2\<close> onto the messages leaves a context that is not
  the one from before the hook, and \<open>compose\<close> returns \<open>[m1, m2]\<close>, not the \<open>[m1]\<close> it
  returns with no hook.
\<close>

theorem nullish_hook_changes_context_counterexample:
  "snd (push_hook (pluginContext 0 0 push_config)) = ReturnsNullish
   \<and> applyPlugin push_hook (pluginContext 0 0 push_config) \<noteq> pluginContext 0 0 push_config
   \<and> compose 0 0 push_config = [m1, m2]
   \<and> compose 0 0 (push_config\<lparr>plugins := Some []\<rparr>) = [m1]"
  by (simp add: push_config_def push_plugin_def push_hook_def pluginContext_def composed_def
        applyPlugin_def compose_def truthy_opt_def)

lemma loop_nonempty:
  "formatted \<noteq> [] \<Longrightarrow>
   formatForClaude_loop msgs formatted sc = formatted @ filter (\<lambda>m. role m \<noteq> System) msgs"
  by (induction msgs arbitrary: formatted sc) simp_all

lemma loop_all_system:
  "\<forall>m\<in>set msgs. role m = System \<Longrightarrow> formatForClaude_loop msgs [] sc = []"
  by (induction msgs arbitrary: sc) simp_all

lemma loop_first_other:
  "dropWhile (\<lambda>m. role m = System) msgs = m # rest \<Longrightarrow>
   formatForClaude_loop msgs [] sc =
     m\<lparr>content := sc @ system_text (takeWhile (\<lambda>m. role m = System) msgs) @ content m\<rparr>
       # filter (\<lambda>m. role m \<noteq> System) rest"
proof (induction msgs arbitrary: sc)
  case Nil
  then show ?case by simp
next
  case (Cons a msgs)
  show ?case
  proof (cases "role a = System")
    case True
    with Cons.prems have "dropWhile (\<lambda>m. role m = System) msgs = m # rest" by simp
    from Cons.IH [OF this, of "sc @ content a @ ''\<newline>\<newline>''"] True
    show ?thesis by (simp add: system_text_def)
  next
    case False
    with Cons.prems have "a = m" and "msgs = rest" by simp_all
    with False show ?thesis
      by (simp add: system_text_def truthy_str_def loop_nonempty)
  qed
qed

text \<open>
  What \<open>formatForClaude\<close> computes: the contents of the system messages that come before
  the first non-system message, each followed by a blank line, are put in front of that
  message's content; the other non-system messages follow unchanged and no system entry
  is left; a list with no non-system message is returned unchanged.
\<close>

lemma formatForClaude_shape:
  "formatForProvider msgs ''claude'' =
     (case dropWhile (\<lambda>m. role m = System) msgs of
        [] \<Rightarrow> msgs
      | m # rest \<Rightarrow>
          m\<lparr>content := system_text (takeWhile (\<lambda>m. role m = System) msgs) @ content m\<rparr>
            # filter (\<lambda>m. role m \<noteq> System) rest)"
proof (cases "dropWhile (\<lambda>m. role m = System) msgs")
  case Nil
  then have "\<forall>m\<in>set msgs. role m = System" by simp
  then have "formatForClaude_loop msgs [] [] = []" by (rule loop_all_system)
  then have "formatForProvider msgs ''claude'' = msgs"
    by (simp add: formatForProvider_def formatForClaude_def)
  with Nil show ?thesis by (simp only: list.case)
next
  case (Cons m rest)
  from loop_first_other [OF this, of "[]"]
  have "formatForProvider msgs ''claude'' =
      m\<lparr>content := system_text (takeWhile (\<lambda>m. role m = System) msgs) @ content m\<rparr>
        # filter (\<lambda>m. role m \<noteq> System) rest"
    by (simp add: formatForProvider_def formatForClaude_def)
  with Cons show ?thesis by (simp only: list.case)
qed

lemma formatForClaude_examples:
  "formatForProvider sys_hi ''claude'' = [mk_message ''u'' User ''X\<newline>\<newline>hi'']
   \<and> formatForProvider mixed_roles ''claude'' =
     [mk_message ''u'' User ''A\<newline>\<newline>B\<newline>\<newline>hi'', mk_message ''y'' Assistant ''yo'']
   \<and> formatForProvider [mk_message ''a'' System ''A'', mk_message ''b'' System ''B''] ''claude''
       = [mk_message ''a'' System ''A'', mk_message ''b'' System ''B'']"
  using formatForClaude_shape [of sys_hi] formatForClaude_shape [of mixed_roles]
    formatForClaude_shape [of "[mk_message ''a'' System ''A'', mk_message ''b'' System ''B'']"]
  by (simp add: sys_hi_def mixed_roles_def mk_message_def system_text_def)

text \<open>
  C6 at a concrete input, the list of a user message \<open>hi\<close> followed by a system message
  \<open>X\<close>: the loop adds \<open>X\<close> to \<open>systemContent\<close> after the user message has been emitted
  and never uses it, so the result is the user message \<open>hi\<close> alone and the content \<open>X\<close>
  is lost, where the transform of the specification gives the user message \<open>X\n\nhi\<close>.
\<close>

theorem late_system_content_lost:
  "formatForProvider hi_sys ''claude'' = [mk_message ''u'' User ''hi'']
   \<and> map role_content (formatForProvider hi_sys ''claude'') = [(User, ''hi'')]
   \<and> spec_system_merge (map role_content hi_sys) = [(User, ''X\<newline>\<newline>hi'')]"
  by (simp add: hi_sys_def mk_message_def role_content_def formatForProvider_def
        formatForClaude_def spec_system_merge_def truthy_str_def)

section \<open>The request of the Anthropic adapter\<close>

lemma Claude_convert_role: "wire_role (Claude_convert m) \<noteq> ''system''"
  by (simp add: Claude_convert_def)

lemma Claude_find_system:
  "find (\<lambda>m. wire_role m = ''system'') (Claude_formatMessages msgs) = None"
  by (simp add: find_None_iff Claude_formatMessages_def Claude_convert_role)

lemma Claude_filter_system:
  "filter (\<lambda>m. wire_role m \<noteq> ''system'') (Claude_formatMessages msgs)
     = Claude_formatMessages msgs"
  by (simp add: Claude_formatMessages_def Claude_convert_role)

lemma Claude_body_never_system:
  "body_system (Claude_body streaming msgs cfg) = None
   \<and> body_messages (Claude_body streaming msgs cfg) = Claude_formatMessages msgs"
  by (simp add: Claude_body_def Let_def Claude_find_system Claude_filter_system)

text \<open>
  C1 at a concrete input, for \<open>stream\<close> and for \<open>chat\<close>: the list of a system message \<open>X\<close>
  and a user message \<open>hi\<close>. \<open>formatMessages\<close> has already renamed the system message to
  the role \<open>user\<close> when the request looks for the role \<open>system\<close>, so the body has no
  \<open>system\<close> field and its \<open>messages\<close> hold the system message as a user turn.
\<close>

theorem Claude_system_stays_in_messages:
  "body_system (Claude_body streaming sys_hi cfg) = None
   \<and> body_messages (Claude_body streaming sys_hi cfg) =
       [\<lparr> wire_role = ''user'', wire_content = ''X'' \<rparr>,
        \<lparr> wire_role = ''user'', wire_content = ''hi'' \<rparr>]"
  by (simp add: Claude_body_def Let_def Claude_formatMessages_def Claude_keep_def
        Claude_convert_def sys_hi_def mk_message_def)

section \<open>Cancellation of a streamed turn\<close>

lemma stream_start:
  "stream fresh_id now events handler messageId e0 =
     (case stream_loop handler events (start_engine fresh_id now messageId e0) [] of
        (Some err, e2, calls) \<Rightarrow>
          \<lparr> returned = Inl err,
            handler_calls = calls @ (if has_onError handler then [OnError err] else []),
            engine_after = e2\<lparr>abortController := None\<rparr> \<rparr>
      | (None, e2, calls) \<Rightarrow>
          \<lparr> returned = Inr (currentMessage e2),
            handler_calls = calls @
              (case currentMessage e2 of
                 None \<Rightarrow> []
               | Some m \<Rightarrow> if has_onComplete handler then [OnComplete m] else []),
            engine_after = e2\<lparr>abortController := None\<rparr> \<rparr>)"
  by (simp add: stream_def start_engine_def Let_def)

lemma abort_accumulate: "abortController (accumulate c e) = abortController e"
  by (simp add: accumulate_def Let_def)

lemma abort_tool_calls: "abortController (handle_tool_calls c e) = abortController e"
  by (simp add: handle_tool_calls_def split: option.splits)

lemma loop_one_chunk:
  "abortController e = Some False \<Longrightarrow>
   stream_loop handler [NextChunk c] e calls =
     (None,
      (if chunk_terminal c then finish_message (handle_tool_calls c (accumulate c e))
       else handle_tool_calls c (accumulate c e)),
      (if has_onChunk handler then calls @ [OnChunk c] else calls))"
  by (simp add: Let_def)

lemma loop_cancel_second:
  "abortController e = Some False \<Longrightarrow>
   stream_loop handler (NextChunk c # CancelCalled # NextChunk c' # rest) e calls =
     (None,
      (if chunk_terminal c then finish_message (handle_tool_calls c (accumulate c e))
       else (handle_tool_calls c (accumulate c e))\<lparr>abortController := Some True\<rparr>),
      (if has_onChunk handler then calls @ [OnChunk c] else calls))"
  by (simp add: Let_def cancel_def abort_accumulate abort_tool_calls)

lemma accumulate_start:
  "accumulate c (start_engine fresh_id now messageId e0) =
     (start_engine fresh_id now messageId e0)
       \<lparr>accumulatedContent := chunk_text c,
        currentMessage := Some \<lparr> msg_id = (if truthy_opt messageId then the messageId else fresh_id),
            role = Assistant, content = chunk_text c, name = None, tool_calls = None,
            tool_call_id = None, timestamp = Some now \<rparr>\<rparr>"
proof (cases "chunk_content c")
  case None
  then show ?thesis
    by (simp add: accumulate_def start_engine_def chunk_text_def truthy_opt_def)
next
  case (Some t)
  then show ?thesis
    by (cases "t = []")
       (simp_all add: accumulate_def start_engine_def chunk_text_def truthy_opt_def
          truthy_str_def Let_def)
qed

lemma first_chunk_applied:
  "handle_tool_calls c (accumulate c (start_engine fresh_id now messageId e0)) =
     e0\<lparr>abortController := Some False, accumulatedContent := chunk_text c,
        currentMessage := Some (first_chunk_message fresh_id now messageId c)\<rparr>"
  unfolding accumulate_start
  by (cases "toolCalls c")
     (simp_all add: handle_tool_calls_def start_engine_def first_chunk_message_def)

lemma first_chunk_finished:
  "finish_message (e0\<lparr>abortController := Some False, accumulatedContent := chunk_text c,
        currentMessage := Some (first_chunk_message fresh_id now messageId c)\<rparr>) =
     e0\<lparr>abortController := Some False, accumulatedContent := chunk_text c,
        currentMessage := Some (first_chunk_message fresh_id now messageId c)\<rparr>"
  by (simp add: finish_message_def first_chunk_message_def)

lemma abort_start: "abortController (start_engine fresh_id now messageId e0) = Some False"
  by (simp add: start_engine_def)

lemma stream_one_chunk:
  "stream fresh_id now [NextChunk c] handler messageId e0 =
     \<lparr> returned = Inr (Some (first_chunk_message fresh_id now messageId c)),
       handler_calls = (if has_onChunk handler then [OnChunk c] else []) @
          (if has_onComplete handler
           then [OnComplete (first_chunk_message fresh_id now messageId c)] else []),
       engine_after = e0\<lparr>abortController := None, accumulatedContent := chunk_text c,
          currentMessage := Some (first_chunk_message fresh_id now messageId c)\<rparr> \<rparr>"
  by (simp add: stream_start loop_one_chunk [OF abort_start] first_chunk_applied
        first_chunk_finished del: stream_loop.simps)

lemma stream_cancel_second:
  "stream fresh_id now (NextChunk c # CancelCalled # NextChunk c' # rest) handler messageId e0 =
   stream fresh_id now [NextChunk c] handler messageId e0"
  by (simp add: stream_start loop_cancel_second [OF abort_start]
        loop_one_chunk [OF abort_start] first_chunk_applied first_chunk_finished
        del: stream_loop.simps)

text \<open>
  C2, as the code has it: when \<open>cancel()\<close> is called after the first chunk has been
  applied and before the second chunk is consumed, the loop stops, the message holds
  exactly the first chunk's text, and the turn ends as a turn whose stream ended after
  the first chunk does: the message is returned and \<open>onComplete\<close>, when present, is
  invoked with it.
\<close>

theorem cancelled_turn_completes:
  "stream fresh_id now (NextChunk c # CancelCalled # NextChunk c' # rest) handler messageId e0 =
     stream fresh_id now [NextChunk c] handler messageId e0
   \<and> returned (stream fresh_id now (NextChunk c # CancelCalled # NextChunk c' # rest)
         handler messageId e0) = Inr (Some (first_chunk_message fresh_id now messageId c))
   \<and> content (first_chunk_message fresh_id now messageId c) = chunk_text c
   \<and> handler_calls (stream fresh_id now (NextChunk c # CancelCalled # NextChunk c' # rest)
         handler messageId e0) =
       (if has_onChunk handler then [OnChunk c] else []) @
       (if has_onComplete handler
        then [OnComplete (first_chunk_message fresh_id now messageId c)] else [])"
proof -
  let ?cancelled = "stream fresh_id now (NextChunk c # CancelCalled # NextChunk c' # rest)
      handler messageId e0"
  let ?m = "first_chunk_message fresh_id now messageId c"
  have same: "?cancelled = stream fresh_id now [NextChunk c] handler messageId e0"
    by (rule stream_cancel_second)
  have ret: "returned ?cancelled = Inr (Some ?m)"
    unfolding same by (simp add: stream_one_chunk)
  have first_text: "content ?m = chunk_text c"
    by (simp add: first_chunk_message_def)
  have calls: "handler_calls ?cancelled =
      (if has_onChunk handler then [OnChunk c] else []) @
      (if has_onComplete handler then [OnComplete ?m] else [])"
    unfolding same by (simp add: stream_one_chunk)
  from same ret first_text calls show ?thesis by (intro conjI)
qed

theorem cancelled_turn_completes_witness:
  "handler_calls (stream ''msg-0-x'' 0
       [NextChunk (text_chunk ''Hel''), CancelCalled, NextChunk (text_chunk ''lo'')]
       all_callbacks (Some ''a1'') fresh_engine) =
     [OnChunk (text_chunk ''Hel''),
      OnComplete \<lparr> msg_id = ''a1'', role = Assistant, content = ''Hel'', name = None,
         tool_calls = None, tool_call_id = None, timestamp = Some 0 \<rparr>]"
  using cancelled_turn_completes [where c = "text_chunk ''Hel''" and c' = "text_chunk ''lo''"
      and rest = "[]" and handler = all_callbacks and messageId = "Some ''a1''"
      and fresh_id = "''msg-0-x''" and now = 0 and ?e0.0 = fresh_engine,
      THEN conjunct2, THEN conjunct2, THEN conjunct2]
  by (simp add: first_chunk_message_def all_callbacks_def text_chunk_def chunk_text_def
        truthy_opt_def truthy_str_def)

text \<open>
  C2 as stated fails: on the chunks \<open>Hel\<close> and \<open>lo\<close> with \<open>cancel()\<close> between them, the
  completion callback is invoked with the message \<open>Hel\<close>, and the result is the result
  of the uncancelled one-chunk stream.
\<close>

theorem cancel_is_completed_counterexample:
  "OnComplete \<lparr> msg_id = ''a1'', role = Assistant, content = ''Hel'', name = None,
         tool_calls = None, tool_call_id = None, timestamp = Some 0 \<rparr>
     \<in> set (handler_calls (stream ''msg-0-x'' 0
       [NextChunk (text_chunk ''Hel''), CancelCalled, NextChunk (text_chunk ''lo'')]
       all_callbacks (Some ''a1'') fresh_engine))
   \<and> stream ''msg-0-x'' 0
       [NextChunk (text_chunk ''Hel''), CancelCalled, NextChunk (text_chunk ''lo'')]
       all_callbacks (Some ''a1'') fresh_engine
     = stream ''msg-0-x'' 0 [NextChunk (text_chunk ''Hel'')]
       all_callbacks (Some ''a1'') fresh_engine"
  by (simp add: stream_cancel_second stream_one_chunk first_chunk_message_def
        all_callbacks_def text_chunk_def chunk_text_def truthy_opt_def truthy_str_def)

section \<open>Line reassembly in the OpenAI adapter\<close>

lemma split_nl_nonempty: "split_nl xs \<noteq> []"
  by (induction xs) (auto split: list.splits)

lemma split_nl_line: "CHR 0x0A \<notin> set l \<Longrightarrow> split_nl (l @ CHR 0x0A # rest) = l # split_nl rest"
  by (induction l) auto

lemma split_nl_no_nl: "CHR 0x0A \<notin> set l \<Longrightarrow> split_nl l = [l]"
  by (induction l) auto

lemma split_nl_unlines:
  "\<forall>l\<in>set ls. CHR 0x0A \<notin> set l \<Longrightarrow> split_nl (unlines ls @ tail) = ls @ split_nl tail"
  by (induction ls) (simp_all add: unlines_def split_nl_line)

lemma split_nl_append:
  "split_nl (xs @ ys) = butlast (split_nl xs) @ split_nl (last (split_nl xs) @ ys)"
proof (induction xs)
  case Nil
  then show ?case by simp
next
  case (Cons c cs)
  obtain l0 ls0 where s: "split_nl cs = l0 # ls0"
    using split_nl_nonempty [of cs] by (cases "split_nl cs") auto
  show ?case
  proof (cases "c = CHR 0x0A")
    case True
    with Cons s show ?thesis by simp
  next
    case False
    show ?thesis
    proof (cases "ls0 = []")
      case True
      with Cons s False show ?thesis by simp
    next
      case ne: False
      with Cons s False show ?thesis by simp
    qed
  qed
qed

lemma last_split_nl: "CHR 0x0A \<notin> set (last (split_nl xs))"
proof (induction xs)
  case Nil
  then show ?case by simp
next
  case (Cons c cs)
  obtain l0 ls0 where s: "split_nl cs = l0 # ls0"
    using split_nl_nonempty [of cs] by (cases "split_nl cs") auto
  with Cons show ?case by (cases "ls0 = []") auto
qed

lemma process_lines_append:
  "process_lines parse (as @ bs) =
     (if snd (process_lines parse as) then process_lines parse as
      else (fst (process_lines parse as) @ fst (process_lines parse bs),
            snd (process_lines parse bs)))"
  by (induction as) (auto simp: Let_def)

lemma read_loop_lines:
  "CHR 0x0A \<notin> set buffer \<Longrightarrow>
   read_loop parse buffer reads =
     fst (process_lines parse (butlast (split_nl (buffer @ concat reads))))"
proof (induction reads arbitrary: buffer)
  case Nil
  then show ?case by (simp add: split_nl_no_nl)
next
  case (Cons v reads)
  let ?L = "split_nl (buffer @ v)"
  have "split_nl (buffer @ concat (v # reads)) =
        butlast ?L @ split_nl (last ?L @ concat reads)"
    using split_nl_append [of "buffer @ v" "concat reads"] by simp
  then have b: "butlast (split_nl (buffer @ concat (v # reads))) =
        butlast ?L @ butlast (split_nl (last ?L @ concat reads))"
    by (simp add: butlast_append split_nl_nonempty)
  have ih: "read_loop parse (last ?L) reads =
        fst (process_lines parse (butlast (split_nl (last ?L @ concat reads))))"
    by (rule Cons.IH) (rule last_split_nl)
  show ?case
    unfolding b by (simp add: Let_def ih process_lines_append)
qed

lemma event_chunks_content:
  "delta_content e = Some (JStr c) \<Longrightarrow> c \<noteq> [] \<Longrightarrow>
   \<exists>more. event_chunks e =
     \<lparr> y_content = Some (JStr c), y_toolCalls = None, y_usage = None,
       y_finishReason = None, y_done = None \<rparr> # more"
  by (cases "e = JNull")
     (auto simp: event_chunks_def delta_content_def Let_def truthy_js_def opt_chain_def
        content_chunk_def)

lemma done_line: "take 6 l = ''data: '' \<Longrightarrow> drop 6 l = ''[DONE]'' \<Longrightarrow> l = ''data: [DONE]''"
proof -
  assume "take 6 l = ''data: ''" and "drop 6 l = ''[DONE]''"
  then have "take 6 l @ drop 6 l = ''data: '' @ ''[DONE]''" by simp
  then show ?thesis by (simp only: append_take_drop_id) simp
qed

lemma no_marker_no_stop:
  "''data: [DONE]'' \<notin> set ls \<Longrightarrow> \<not> snd (process_lines parse ls)"
proof (induction ls)
  case Nil
  then show ?case by simp
next
  case (Cons l ls)
  then have "\<not> (take 6 l = ''data: '' \<and> drop 6 l = ''[DONE]'')"
    using done_line [of l] by auto
  with Cons show ?case by (auto simp: Let_def)
qed

lemma process_lines_past:
  "''data: [DONE]'' \<notin> set ls \<Longrightarrow>
   process_lines parse (ls @ rest) =
     (fst (process_lines parse ls) @ fst (process_lines parse rest),
      snd (process_lines parse rest))"
  by (simp add: process_lines_append no_marker_no_stop)

lemma data_line_not_marker: "''data: [DONE]'' \<noteq> data_line d \<Longrightarrow> d \<noteq> ''[DONE]''"
  by (auto simp: data_line_def)

lemma process_data_line:
  "d \<noteq> ''[DONE]'' \<Longrightarrow>
   process_lines parse (data_line d # rest) =
     ((case parse d of None \<Rightarrow> [] | Some parsed \<Rightarrow> event_chunks parsed)
        @ fst (process_lines parse rest),
      snd (process_lines parse rest))"
  by (simp add: Let_def data_line_def)

lemma OpenAI_stream_lines:
  assumes "concat reads = unlines ls @ tail"
    and "\<forall>l\<in>set ls. CHR 0x0A \<notin> set l"
    and "CHR 0x0A \<notin> set tail"
  shows "OpenAI_stream parse (Body reads) = Inr (fst (process_lines parse ls))"
proof -
  have "split_nl (concat reads) = ls @ [tail]"
    using assms by (simp add: split_nl_unlines split_nl_no_nl)
  then have "butlast (split_nl ([] @ concat reads)) = ls" by simp
  then show ?thesis
    using read_loop_lines [of "[]" parse reads] by (simp add: OpenAI_stream_def)
qed

text \<open>
  C8, as the code has it: the reads of the body, cut anywhere, carry complete lines
  among which come, in this order and with any lines before, between and after them, a
  valid content-bearing \<open>data:\<close> line, a \<open>data:\<close> line that \<open>JSON.parse\<close> rejects and a
  second valid content-bearing \<open>data:\<close> line, and no line up to the second valid line is
  the end-of-stream marker. Then the adapter yields, in this order, the chunks of the
  lines before, the chunks of the first event, the chunks of the lines between, the
  chunks of the second event and the chunks of the lines after: the malformed line
  yields nothing and does not end the stream, and the chunks of each valid event start
  with the chunk that carries its content and nothing else.
\<close>

theorem malformed_line_between_is_skipped:
  assumes "concat reads =
      unlines (before @ [data_line d1] @ mid1 @ [data_line bad] @ mid2 @ [data_line d2] @ after)
        @ tail"
    and "\<forall>l\<in>set (before @ [data_line d1] @ mid1 @ [data_line bad] @ mid2
                    @ [data_line d2] @ after). CHR 0x0A \<notin> set l"
    and "CHR 0x0A \<notin> set tail"
    and "''data: [DONE]'' \<notin>
           set (before @ [data_line d1] @ mid1 @ [data_line bad] @ mid2 @ [data_line d2])"
    and "parse bad = None"
    and "parse d1 = Some e1" and "delta_content e1 = Some (JStr c1)" and "c1 \<noteq> []"
    and "parse d2 = Some e2" and "delta_content e2 = Some (JStr c2)" and "c2 \<noteq> []"
  shows "OpenAI_stream parse (Body reads) =
           Inr (fst (process_lines parse before) @ event_chunks e1
                  @ fst (process_lines parse mid1) @ fst (process_lines parse mid2)
                  @ event_chunks e2 @ fst (process_lines parse after))
       \<and> (\<exists>more. event_chunks e1 =
             \<lparr> y_content = Some (JStr c1), y_toolCalls = None, y_usage = None,
               y_finishReason = None, y_done = None \<rparr> # more)
       \<and> (\<exists>more. event_chunks e2 =
             \<lparr> y_content = Some (JStr c2), y_toolCalls = None, y_usage = None,
               y_finishReason = None, y_done = None \<rparr> # more)"
proof -
  have m0: "''data: [DONE]'' \<notin> set before" and m1: "''data: [DONE]'' \<notin> set mid1"
    and m2: "''data: [DONE]'' \<notin> set mid2"
    using assms(4) by simp_all
  have n1: "d1 \<noteq> ''[DONE]''" and nb: "bad \<noteq> ''[DONE]''" and n2: "d2 \<noteq> ''[DONE]''"
    using assms(4) by (simp_all add: data_line_not_marker)
  have s3: "process_lines parse (data_line d2 # after) =
      (event_chunks e2 @ fst (process_lines parse after), snd (process_lines parse after))"
    using n2 assms(9) by (simp add: process_data_line del: process_lines.simps)
  have s2: "process_lines parse (data_line bad # mid2 @ data_line d2 # after) =
      (fst (process_lines parse mid2) @ event_chunks e2 @ fst (process_lines parse after),
       snd (process_lines parse after))"
    using nb assms(5) m2 s3
    by (simp add: process_data_line process_lines_past del: process_lines.simps)
  have s1: "process_lines parse
        (data_line d1 # mid1 @ data_line bad # mid2 @ data_line d2 # after) =
      (event_chunks e1 @ fst (process_lines parse mid1) @ fst (process_lines parse mid2)
         @ event_chunks e2 @ fst (process_lines parse after),
       snd (process_lines parse after))"
    using n1 assms(6) m1 s2
    by (simp add: process_data_line process_lines_past del: process_lines.simps)
  have "fst (process_lines parse
        (before @ data_line d1 # mid1 @ data_line bad # mid2 @ data_line d2 # after)) =
      fst (process_lines parse before) @ event_chunks e1 @ fst (process_lines parse mid1)
        @ fst (process_lines parse mid2) @ event_chunks e2 @ fst (process_lines parse after)"
    using m0 s1 by (simp add: process_lines_past del: process_lines.simps)
  then have out: "OpenAI_stream parse (Body reads) =
      Inr (fst (process_lines parse before) @ event_chunks e1
             @ fst (process_lines parse mid1) @ fst (process_lines parse mid2)
             @ event_chunks e2 @ fst (process_lines parse after))"
    using OpenAI_stream_lines [OF assms(1) assms(2) assms(3), of parse] by simp
  from out event_chunks_content [OF assms(7) assms(8)]
    event_chunks_content [OF assms(10) assms(11)]
  show ?thesis by (intro conjI)
qed

lemma example_reads_text: "concat example_reads = unlines example_lines"
  by (simp only: example_reads_def concat.simps append_Nil2 append_take_drop_id)

theorem malformed_line_between_is_skipped_witness:
  "OpenAI_stream example_parse (Body example_reads) =
     Inr [\<lparr> y_content = Some (JStr ''Hel''), y_toolCalls = None, y_usage = None,
             y_finishReason = None, y_done = None \<rparr>,
          \<lparr> y_content = Some (JStr ''lo''), y_toolCalls = None, y_usage = None,
             y_finishReason = None, y_done = None \<rparr>,
          \<lparr> y_content = None, y_toolCalls = None, y_usage = None,
             y_finishReason = None, y_done = Some True \<rparr>]"
proof -
  have body: "concat example_reads =
      unlines ([] @ [data_line (content_json ''Hel'')] @ [[]] @ [data_line truncated_json]
        @ [[]] @ [data_line (content_json ''lo'')] @ [[], ''data: [DONE]'', []]) @ []"
    by (simp add: example_reads_text example_lines_def)
  have lines: "\<forall>l\<in>set ([] @ [data_line (content_json ''Hel'')] @ [[]]
        @ [data_line truncated_json] @ [[]] @ [data_line (content_json ''lo'')]
        @ [[], ''data: [DONE]'', []]). CHR 0x0A \<notin> set l"
    by (simp add: data_line_def content_json_def truncated_json_def quoted_def)
  have marker: "''data: [DONE]'' \<notin> set ([] @ [data_line (content_json ''Hel'')] @ [[]]
        @ [data_line truncated_json] @ [[]] @ [data_line (content_json ''lo'')])"
    by (simp add: data_line_def content_json_def truncated_json_def quoted_def)
  have bad: "example_parse truncated_json = None"
    by (simp add: example_parse_def content_json_def truncated_json_def quoted_def)
  have p1: "example_parse (content_json ''Hel'') = Some (content_event ''Hel'')"
    by (simp add: example_parse_def)
  have p2: "example_parse (content_json ''lo'') = Some (content_event ''lo'')"
    by (simp add: example_parse_def content_json_def quoted_def)
  have c: "delta_content (content_event t) = Some (JStr t)" for t
    by (simp add: delta_content_def content_event_def opt_chain_def)
  from malformed_line_between_is_skipped [OF body lines _ marker bad p1 c _ p2 c]
  have "OpenAI_stream example_parse (Body example_reads) =
      Inr (fst (process_lines example_parse []) @ event_chunks (content_event ''Hel'')
             @ fst (process_lines example_parse [[]]) @ fst (process_lines example_parse [[]])
             @ event_chunks (content_event ''lo'')
             @ fst (process_lines example_parse [[], ''data: [DONE]'', []]))"
    by simp
  then show ?thesis
    by (simp add: event_chunks_def content_event_def opt_chain_def truthy_js_def
          content_chunk_def done_chunk_def Let_def)
qed

text \<open>
  C8 as stated fails when an end-of-stream marker comes first: the generator returns at
  the marker, so of a body whose lines are the marker, a valid content-bearing line, a
  malformed line and a second valid content-bearing line, it yields the terminal chunk
  alone and neither content chunk.
\<close>

theorem marker_first_counterexample:
  "example_parse (content_json ''Hel'') = Some (content_event ''Hel'')
   \<and> example_parse truncated_json = None
   \<and> example_parse (content_json ''lo'') = Some (content_event ''lo'')
   \<and> OpenAI_stream example_parse (Body done_first_reads) =
       Inr [\<lparr> y_content = None, y_toolCalls = None, y_usage = None,
               y_finishReason = None, y_done = Some True \<rparr>]"
proof -
  have lines: "\<forall>l\<in>set [''data: [DONE]'', data_line (content_json ''Hel''),
        data_line truncated_json, data_line (content_json ''lo'')]. CHR 0x0A \<notin> set l"
    by (simp add: data_line_def content_json_def truncated_json_def quoted_def)
  have "OpenAI_stream example_parse (Body done_first_reads) =
      Inr (fst (process_lines example_parse [''data: [DONE]'', data_line (content_json ''Hel''),
        data_line truncated_json, data_line (content_json ''lo'')]))"
  proof (rule OpenAI_stream_lines [where tail = "[]"])
    show "concat done_first_reads =
        unlines [''data: [DONE]'', data_line (content_json ''Hel''),
          data_line truncated_json, data_line (content_json ''lo'')] @ []"
      by (simp add: done_first_reads_def)
    show "\<forall>l\<in>set [''data: [DONE]'', data_line (content_json ''Hel''),
        data_line truncated_json, data_line (content_json ''lo'')]. CHR 0x0A \<notin> set l"
      by (rule lines)
    show "CHR 0x0A \<notin> set []" by simp
  qed
  then have out: "OpenAI_stream example_parse (Body done_first_reads) =
       Inr [\<lparr> y_content = None, y_toolCalls = None, y_usage = None,
               y_finishReason = None, y_done = Some True \<rparr>]"
    by (simp add: done_chunk_def)
  have bad: "example_parse truncated_json = None"
    by (simp add: example_parse_def content_json_def truncated_json_def quoted_def)
  have p1: "example_parse (content_json ''Hel'') = Some (content_event ''Hel'')"
    by (simp add: example_parse_def)
  have p2: "example_parse (content_json ''lo'') = Some (content_event ''lo'')"
    by (simp add: example_parse_def content_json_def quoted_def)
  from p1 bad p2 out show ?thesis by (intro conjI)
qed

end
